theory Spec2Isabelle
  imports Main "HOL-Library.AList"
begin

section \<open>Quash execution core (src/quash/src/execute.c)\<close>

text \<open>
  The development embeds the functions of \<^verbatim>\<open>execute.c\<close> as HOL functions over an
  explicit process state.  A process owns a file-descriptor table, a working directory,
  an environment, its copy of the job registry, \<^verbatim>\<open>errno\<close>, the stdio buffer of
  \<^verbatim>\<open>stdout\<close> and the trace of the system calls it made.  \<^verbatim>\<open>fork\<close>
  copies that state; what the kernel and libc decide (whether a call fails, what a path
  resolves to) is an explicit parameter.  Processes run side by side; the model follows
  each process through its own code from the \<^verbatim>\<open>fork\<close> that creates it to its
  end, and keeps for each one the descriptors it ends with and the calls it made, which
  do not depend on how the processes interleave.  What an executed program does is
  outside the source: a process whose image was replaced is recorded with the program,
  its arguments and the descriptors it inherits.
\<close>

subsection \<open>Open files, descriptor tables, errno\<close>

datatype fobj =
    Tty
  | PipeR nat
  | PipeW nat
  | FileR string
  | FileW string

type_synonym fdtable = "fobj option list"

datatype errno = ESUCCESS | EAGAIN | ENOENT | EACCES | EBADF | EFAULT | EINVAL | EMFILE | ESRCH | ERANGE

datatype event =
    Write fobj string
  | Trunc string
  | Forked int
  | WaitPid int
  | WaitAny
  | Signal int int

subsection \<open>The job registry (interface of quash.h, not part of execute.c)\<close>

datatype job_state = Running | Finished

record job =
  job_id :: int
  job_pid :: int
  job_cmd :: string
  job_state :: job_state

type_synonym registry = "job list"

subsection \<open>Process state\<close>

record pstate =
  p_pid :: int
  p_fds :: fdtable
  p_cwd :: string
  p_env :: "(string \<times> string) list"
  p_jobs :: registry
  p_errno :: errno
  p_obuf :: string
  p_trace :: "event list"

definition fd_lookup :: "fdtable \<Rightarrow> int \<Rightarrow> fobj option" where
  "fd_lookup t fd = (if 0 \<le> fd \<and> nat fd < length t then t ! nat fd else None)"

fun lowest_free :: "fdtable \<Rightarrow> nat" where
  "lowest_free [] = 0"
| "lowest_free (None # t) = 0"
| "lowest_free (Some ob # t) = Suc (lowest_free t)"

fun fd_install :: "fdtable \<Rightarrow> nat \<Rightarrow> fobj \<Rightarrow> fdtable" where
  "fd_install [] 0 ob = [Some ob]"
| "fd_install [] (Suc n) ob = None # fd_install [] n ob"
| "fd_install (x # t) 0 ob = Some ob # t"
| "fd_install (x # t) (Suc n) ob = x # fd_install t n ob"

text \<open>\<^verbatim>\<open>close(fd)\<close>: an invalid descriptor fails with EBADF and changes nothing else.\<close>

definition sys_close :: "int \<Rightarrow> pstate \<Rightarrow> pstate" where
  "sys_close fd p =
     (case fd_lookup (p_fds p) fd of
        None \<Rightarrow> p\<lparr>p_errno := EBADF\<rparr>
      | Some ob \<Rightarrow> p\<lparr>p_fds := (p_fds p)[nat fd := None]\<rparr>)"

text \<open>\<^verbatim>\<open>dup2(oldfd, newfd)\<close> with \<open>newfd\<close> 0 or 1: an invalid \<open>oldfd\<close> fails with
  EBADF and leaves \<open>newfd\<close> as it was.\<close>

definition sys_dup2 :: "int \<Rightarrow> nat \<Rightarrow> pstate \<Rightarrow> pstate" where
  "sys_dup2 oldfd newfd p =
     (case fd_lookup (p_fds p) oldfd of
        None \<Rightarrow> p\<lparr>p_errno := EBADF\<rparr>
      | Some ob \<Rightarrow> p\<lparr>p_fds := fd_install (p_fds p) newfd ob\<rparr>)"

text \<open>\<^verbatim>\<open>write(fd, s)\<close>: the bytes reach the open file the descriptor names.\<close>

definition sys_write :: "int \<Rightarrow> string \<Rightarrow> pstate \<Rightarrow> pstate" where
  "sys_write fd s p =
     (case fd_lookup (p_fds p) fd of
        None \<Rightarrow> p\<lparr>p_errno := EBADF\<rparr>
      | Some ob \<Rightarrow> p\<lparr>p_trace := p_trace p @ [Write ob s]\<rparr>)"

subsection \<open>stdio\<close>

definition STDIN_FILENO :: nat where "STDIN_FILENO = 0"
definition STDOUT_FILENO :: nat where "STDOUT_FILENO = 1"
definition STDERR_FILENO :: nat where "STDERR_FILENO = 2"

text \<open>\<^verbatim>\<open>printf\<close> appends to the buffer of \<^verbatim>\<open>stdout\<close>; \<^verbatim>\<open>fflush(stdout)\<close>
  writes the buffer to descriptor 1 and empties it.  \<^verbatim>\<open>stderr\<close> is unbuffered.\<close>

definition printf :: "string \<Rightarrow> pstate \<Rightarrow> pstate" where
  "printf s p = p\<lparr>p_obuf := p_obuf p @ s\<rparr>"

definition fflush_stdout :: "pstate \<Rightarrow> pstate" where
  "fflush_stdout p =
     (if p_obuf p = [] then p
      else (sys_write (int STDOUT_FILENO) (p_obuf p) p)\<lparr>p_obuf := []\<rparr>)"

definition fprintf_stderr :: "string \<Rightarrow> pstate \<Rightarrow> pstate" where
  "fprintf_stderr s p = sys_write (int STDERR_FILENO) s p"

text \<open>The bytes a trace sends to one open file, in order.\<close>

fun written_to :: "fobj \<Rightarrow> event list \<Rightarrow> string" where
  "written_to ob [] = []"
| "written_to ob (Write ob' s # es) = (if ob' = ob then s @ written_to ob es else written_to ob es)"
| "written_to ob (e # es) = written_to ob es"

text \<open>The conversions \<^verbatim>\<open>%d\<close> and \<^verbatim>\<open>%8d\<close> of \<^verbatim>\<open>printf\<close>: decimal digits, a
  minus sign for a negative value, and for \<^verbatim>\<open>%8d\<close> blanks on the left up to a
  width of eight.\<close>

definition digit_char :: "nat \<Rightarrow> char" where
  "digit_char d = ''0123456789'' ! d"

fun dec_nat :: "nat \<Rightarrow> string" where
  "dec_nat n = (if n < 10 then [digit_char n] else dec_nat (n div 10) @ [digit_char (n mod 10)])"

declare dec_nat.simps [simp del]

definition fmt_d :: "int \<Rightarrow> string" where
  "fmt_d i = (if i < 0 then CHR ''-'' # dec_nat (nat (- i)) else dec_nat (nat i))"

definition fmt_8d :: "int \<Rightarrow> string" where
  "fmt_8d i = replicate (8 - length (fmt_d i)) CHR '' '' @ fmt_d i"

definition TAB :: char where "TAB = CHR 0x09"
definition NL :: char where "NL = CHR 0x0A"

subsection \<open>Job lines\<close>

text \<open>\<^verbatim>\<open>printf("[%d]\t%8d\t%s\n", job_id, pid, cmd); fflush(stdout);\<close>\<close>

definition print_job :: "int \<Rightarrow> int \<Rightarrow> string \<Rightarrow> pstate \<Rightarrow> pstate" where
  "print_job jid pid cmd p =
     fflush_stdout
       (printf (''['' @ fmt_d jid @ '']'' @ [TAB] @ fmt_8d pid @ [TAB] @ cmd @ [NL]) p)"

definition print_job_bg_start :: "int \<Rightarrow> int \<Rightarrow> string \<Rightarrow> pstate \<Rightarrow> pstate" where
  "print_job_bg_start jid pid cmd p =
     print_job jid pid cmd (printf ''Background job started: '' p)"

definition print_job_bg_complete :: "int \<Rightarrow> int \<Rightarrow> string \<Rightarrow> pstate \<Rightarrow> pstate" where
  "print_job_bg_complete jid pid cmd p =
     print_job jid pid cmd (printf (''Completed: '' @ [TAB]) p)"

text \<open>The three line formats as the specification words them: the fields separated by
  single tabs, the process id printed without padding.\<close>

definition spec_job_line :: "int \<Rightarrow> int \<Rightarrow> string \<Rightarrow> string" where
  "spec_job_line jid pid cmd = ''['' @ fmt_d jid @ '']'' @ [TAB] @ fmt_d pid @ [TAB] @ cmd @ [NL]"

definition spec_start_line :: "int \<Rightarrow> int \<Rightarrow> string \<Rightarrow> string" where
  "spec_start_line jid pid cmd = ''Background job started: '' @ spec_job_line jid pid cmd"

definition spec_complete_line :: "int \<Rightarrow> int \<Rightarrow> string \<Rightarrow> string" where
  "spec_complete_line jid pid cmd = ''Completed: '' @ [TAB] @ spec_job_line jid pid cmd"

text \<open>The same formats with the process id right-justified in eight columns.\<close>

definition padded_job_line :: "int \<Rightarrow> int \<Rightarrow> string \<Rightarrow> string" where
  "padded_job_line jid pid cmd =
     ''['' @ fmt_d jid @ '']'' @ [TAB] @ replicate (8 - length (fmt_d pid)) CHR '' '' @ fmt_d pid
       @ [TAB] @ cmd @ [NL]"

subsection \<open>Print (run_echo)\<close>

text \<open>\<^verbatim>\<open>for (char** arg = cmd.args; *arg != NULL; ++arg) printf("%s ", *arg);\<close>\<close>

fun echo_loop :: "string list \<Rightarrow> pstate \<Rightarrow> pstate" where
  "echo_loop [] p = p"
| "echo_loop (arg # args) p = echo_loop args (printf (arg @ '' '') p)"

definition run_echo :: "string list \<Rightarrow> pstate \<Rightarrow> pstate" where
  "run_echo args p = fflush_stdout (printf [NL] (echo_loop args p))"

subsection \<open>libc and kernel calls on one process\<close>

text \<open>What the environment decides is a parameter: how a path resolves, whether a
  directory can be entered, a file opened, a program executed, a signal delivered, and
  the text \<^verbatim>\<open>strerror\<close> gives for an error number.\<close>

record os =
  os_realpath :: "string \<Rightarrow> string \<Rightarrow> errno + string"
  os_chdir :: "string \<Rightarrow> errno option"
  os_open :: "string \<Rightarrow> bool \<Rightarrow> errno option"
  os_execvp :: "string \<Rightarrow> errno option"
  os_kill :: "int \<Rightarrow> int \<Rightarrow> errno option"
  os_strerror :: "errno \<Rightarrow> string"

definition perror :: "os \<Rightarrow> string \<Rightarrow> pstate \<Rightarrow> pstate" where
  "perror os s p =
     sys_write (int STDERR_FILENO) (s @ '': '' @ os_strerror os (p_errno p) @ [NL]) p"

text \<open>\<^verbatim>\<open>getcwd(buf, sz)\<close> fails with ERANGE when the path and its terminating
  byte do not fit in \<open>sz\<close> bytes.\<close>

definition getcwd_buf :: "nat \<Rightarrow> pstate \<Rightarrow> string option \<times> pstate" where
  "getcwd_buf sz p =
     (if length (p_cwd p) + 1 \<le> sz then (Some (p_cwd p), p)
      else (None, p\<lparr>p_errno := ERANGE\<rparr>))"

text \<open>\<^verbatim>\<open>setenv(name, value, 1)\<close> fails with EINVAL on an empty name or a name
  with \<open>=\<close> in it.\<close>

definition setenv :: "string \<Rightarrow> string \<Rightarrow> pstate \<Rightarrow> bool \<times> pstate" where
  "setenv name val p =
     (if name = [] \<or> CHR ''='' \<in> set name then (False, p\<lparr>p_errno := EINVAL\<rparr>)
      else (True, p\<lparr>p_env := AList.update name val (p_env p)\<rparr>))"

text \<open>\<^verbatim>\<open>open(path, flags)\<close>: the lowest free descriptor; \<open>wr\<close> stands for
  \<^verbatim>\<open>O_WRONLY | O_CREAT | O_TRUNC\<close>, which creates or empties the file.  A null
  path fails with EFAULT.  The result is \<open>-1\<close> on failure.\<close>

definition sys_open :: "os \<Rightarrow> string option \<Rightarrow> bool \<Rightarrow> pstate \<Rightarrow> int \<times> pstate" where
  "sys_open os path wr p =
     (case path of
        None \<Rightarrow> (- 1, p\<lparr>p_errno := EFAULT\<rparr>)
      | Some f \<Rightarrow>
          (case os_open os f wr of
             Some e \<Rightarrow> (- 1, p\<lparr>p_errno := e\<rparr>)
           | None \<Rightarrow>
               (let fd = lowest_free (p_fds p) in
                (int fd,
                 p\<lparr>p_fds := fd_install (p_fds p) fd (if wr then FileW f else FileR f),
                   p_trace := p_trace p @ (if wr then [Trunc f] else [])\<rparr>))))"

definition sys_waitpid :: "int \<Rightarrow> pstate \<Rightarrow> pstate" where
  "sys_waitpid pid p = p\<lparr>p_trace := p_trace p @ [WaitPid pid]\<rparr>"

definition sys_wait :: "pstate \<Rightarrow> pstate" where
  "sys_wait p = p\<lparr>p_trace := p_trace p @ [WaitAny]\<rparr>"

subsection \<open>Job registry operations\<close>

text \<open>Modelled from the spec: \<^verbatim>\<open>add_background_job\<close>, \<^verbatim>\<open>get_finished_job\<close> and
  \<^verbatim>\<open>list_background_jobs\<close> are declared outside execute.c.  The specification gives
  their contract: registering returns a fresh positive identifier not in use; polling
  returns at most one finished and unreported job per call and removes it from the
  tracked set; listing writes the tracked jobs in insertion order, one line each.\<close>

definition fresh_job_id :: "registry \<Rightarrow> int" where
  "fresh_job_id reg = 1 + fold max (map job_id reg) 0"

definition add_background_job :: "int \<Rightarrow> string \<Rightarrow> pstate \<Rightarrow> int \<times> pstate" where
  "add_background_job pid cmd p =
     (let jid = fresh_job_id (p_jobs p) in
      (jid, p\<lparr>p_jobs := p_jobs p @
                 [\<lparr>job_id = jid, job_pid = pid, job_cmd = cmd, job_state = Running\<rparr>]\<rparr>))"

fun take_finished :: "registry \<Rightarrow> (job \<times> registry) option" where
  "take_finished [] = None"
| "take_finished (j # js) =
     (if job_state j = Finished then Some (j, js)
      else (case take_finished js of None \<Rightarrow> None | Some (f, r) \<Rightarrow> Some (f, j # r)))"

definition get_finished_job :: "pstate \<Rightarrow> (int \<times> int \<times> string) option \<times> pstate" where
  "get_finished_job p =
     (case take_finished (p_jobs p) of
        None \<Rightarrow> (None, p)
      | Some (j, r) \<Rightarrow> (Some (job_id j, job_pid j, job_cmd j), p\<lparr>p_jobs := r\<rparr>))"

fun list_jobs_loop :: "registry \<Rightarrow> pstate \<Rightarrow> pstate" where
  "list_jobs_loop [] p = p"
| "list_jobs_loop (j # js) p =
     list_jobs_loop js (printf (spec_job_line (job_id j) (job_pid j) (job_cmd j)) p)"

definition list_background_jobs :: "pstate \<Rightarrow> pstate" where
  "list_background_jobs p = list_jobs_loop (p_jobs p) p"

lemma take_finished_shorter: "take_finished reg = Some (j, r) \<Longrightarrow> length r < length reg"
  by (induction reg arbitrary: j r) (auto split: if_splits option.splits)

lemma print_job_bg_complete_jobs: "p_jobs (print_job_bg_complete jid pid cmd p) = p_jobs p"
  by (simp add: print_job_bg_complete_def print_job_def fflush_stdout_def printf_def
      sys_write_def split: option.splits)

subsection \<open>check_jobs_bg_status\<close>

text \<open>The loop of the source stands between \<^verbatim>\<open>#ifdef get_finished_job\<close> and
  \<^verbatim>\<open>#endif\<close>: the preprocessor keeps it only when \<^verbatim>\<open>get_finished_job\<close> is the
  name of a macro.  Whether it is, the absent headers decide, so it is the parameter
  \<open>macro_defined\<close>.  A function declaration does not define a macro.\<close>

function poll_loop :: "pstate \<Rightarrow> pstate" where
  "poll_loop p =
     (case get_finished_job p of
        (None, p') \<Rightarrow> p'
      | (Some (jid, pid, cmd), p') \<Rightarrow> poll_loop (print_job_bg_complete jid pid cmd p'))"
  by pat_completeness auto
termination
  by (relation "measure (\<lambda>p. length (p_jobs p))")
    (auto simp: get_finished_job_def print_job_bg_complete_jobs
      split: option.splits dest: take_finished_shorter)

declare poll_loop.simps [simp del]

definition check_jobs_bg_status :: "bool \<Rightarrow> pstate \<Rightarrow> pstate" where
  "check_jobs_bg_status macro_defined p = (if macro_defined then poll_loop p else p)"

subsection \<open>Commands and pipeline stages\<close>

text \<open>Modelled from the spec: the types \<^verbatim>\<open>Command\<close>, \<^verbatim>\<open>GenericCommand\<close> and
  \<^verbatim>\<open>CommandHolder\<close> and the flag masks are declared in headers outside execute.c.
  The specification describes a command as a tagged variant over the command kinds and
  a stage as a command with a flag set and optional redirection paths; the fields are
  the ones execute.c reads (\<^verbatim>\<open>cmd.args\<close>, \<^verbatim>\<open>cmd.flags\<close>, \<^verbatim>\<open>holder.flags\<close>,
  \<^verbatim>\<open>holder.redirect_in\<close>, \<^verbatim>\<open>holder.redirect_out\<close>, \<^verbatim>\<open>holder.cmd\<close>).  A flag word
  is the set of the flags that are set, so \<^verbatim>\<open>flags & F\<close> is membership of \<open>F\<close>; a
  pointer that may be null is an option.\<close>

datatype flag = REDIRECT_IN | REDIRECT_OUT | PIPE_OUT | BACKGROUND

record generic_command =
  g_args :: "string list option"
  g_flags :: "flag set"

datatype command =
    GENERIC generic_command
  | ECHO "string list"
  | EXPORT string string
  | CD "string option"
  | KILL int int
  | PWD
  | JOBS
  | EOC

record command_holder =
  redirect_in :: "string option"
  redirect_out :: "string option"
  h_flags :: "flag set"
  h_cmd :: command

text \<open>\<^verbatim>\<open>get_command_holder_type(holder) == EOC\<close>\<close>

fun is_EOC :: "command_holder \<Rightarrow> bool" where
  "is_EOC h = (case h_cmd h of EOC \<Rightarrow> True | _ \<Rightarrow> False)"

subsection \<open>Processes and fork\<close>

text \<open>A process ends by \<^verbatim>\<open>_exit(status)\<close> or continues as another program after
  \<^verbatim>\<open>execvp\<close>.  A function either returns to its caller or ends the process.\<close>

datatype ending = Exited int | Replaced string "string list"

datatype flow = Returns | Ends ending

record proc =
  pr_parent :: int
  pr_state :: pstate
  pr_flow :: flow

text \<open>The machine as seen from the running process \<open>m_me\<close>: the kernel's counters, the
  outcomes the next \<^verbatim>\<open>fork\<close> and \<^verbatim>\<open>pipe\<close> calls will have (\<open>Some e\<close> fails with
  \<open>e\<close>; an exhausted script succeeds), the indeterminate content of an uninitialised
  \<^verbatim>\<open>int fds[2]\<close>, and the processes created so far with the state they ended in.\<close>

record machine =
  m_next_pid :: int
  m_next_pipe :: nat
  m_fork_script :: "errno option list"
  m_pipe_script :: "errno option list"
  m_junk :: "int \<times> int"
  m_me :: pstate
  m_spawned :: "proc list"

text \<open>The outcome scripted for the next call: \<open>Some e\<close> when it fails with \<open>e\<close>.\<close>

fun next_failure :: "errno option list \<Rightarrow> errno option" where
  "next_failure (Some e # rest) = Some e"
| "next_failure rest = None"

definition on_me :: "(pstate \<Rightarrow> pstate) \<Rightarrow> machine \<Rightarrow> machine" where
  "on_me f m = m\<lparr>m_me := f (m_me m)\<rparr>"

text \<open>\<^verbatim>\<open>pipe(fds)\<close>: on success a new pipe on the two lowest free descriptors, read end
  first; on failure \<open>fds\<close> is not written.\<close>

definition sys_pipe :: "machine \<Rightarrow> (int \<times> int) option \<times> machine" where
  "sys_pipe m =
     (case next_failure (m_pipe_script m) of
        Some e \<Rightarrow>
          (None, m\<lparr>m_pipe_script := tl (m_pipe_script m), m_me := (m_me m)\<lparr>p_errno := e\<rparr>\<rparr>)
      | None \<Rightarrow>
          (let n = m_next_pipe m;
               t = p_fds (m_me m);
               r = lowest_free t;
               t1 = fd_install t r (PipeR n);
               w = lowest_free t1;
               t2 = fd_install t1 w (PipeW n)
           in (Some (int r, int w),
               m\<lparr>m_next_pipe := n + 1, m_pipe_script := tl (m_pipe_script m),
                 m_me := (m_me m)\<lparr>p_fds := t2\<rparr>\<rparr>)))"

text \<open>\<^verbatim>\<open>fork()\<close> returns twice.  \<open>body pid\<close> is the code after the call as a function
  of the value returned: it runs with 0 in the new process, on a copy of the caller's
  state (\<open>fork_child\<close>), and with the child's process id in the caller
  (\<open>fork_parent\<close>); when the call fails it runs once, in the caller, with \<open>-1\<close>.
  The child is recorded with the state and the flow it ended with; a child whose flow is
  \<open>Returns\<close> came back out of the forking function.\<close>

definition fork_child :: "machine \<Rightarrow> machine" where
  "fork_child m =
     m\<lparr>m_next_pid := m_next_pid m + 1, m_fork_script := tl (m_fork_script m),
       m_me := (m_me m)\<lparr>p_pid := m_next_pid m, p_trace := []\<rparr>, m_spawned := []\<rparr>"

definition fork_parent :: "machine \<Rightarrow> flow \<times> machine \<Rightarrow> machine" where
  "fork_parent m child =
     (case child of
        (cflow, mc) \<Rightarrow>
          mc\<lparr>m_me := (m_me m)\<lparr>p_trace := p_trace (m_me m) @ [Forked (m_next_pid m)]\<rparr>,
             m_spawned := m_spawned m @
               \<lparr>pr_parent = p_pid (m_me m), pr_state = m_me mc, pr_flow = cflow\<rparr> # m_spawned mc\<rparr>)"

definition sys_fork :: "(int \<Rightarrow> machine \<Rightarrow> flow \<times> machine) \<Rightarrow> machine \<Rightarrow> flow \<times> machine" where
  "sys_fork body m =
     (case next_failure (m_fork_script m) of
        Some e \<Rightarrow>
          body (- 1) (m\<lparr>m_fork_script := tl (m_fork_script m), m_me := (m_me m)\<lparr>p_errno := e\<rparr>\<rparr>)
      | None \<Rightarrow> body (m_next_pid m) (fork_parent m (body 0 (fork_child m))))"

text \<open>\<^verbatim>\<open>EXIT_FAILURE\<close> of \<^verbatim>\<open>stdlib.h\<close>.\<close>

definition EXIT_FAILURE :: int where "EXIT_FAILURE = 1"

subsection \<open>Built-in commands\<close>

definition run_generic_fork ::
  "os \<Rightarrow> generic_command \<Rightarrow> string \<Rightarrow> string list \<Rightarrow> int \<Rightarrow> machine \<Rightarrow> flow \<times> machine" where
  "run_generic_fork os cmd arg0 args pid m =
     (if pid < 0 then (Returns, on_me (perror os ''ERROR: Fork failed'') m)
      else if pid = 0 then
        (case os_execvp os arg0 of
           None \<Rightarrow> (Ends (Replaced arg0 args), m)
         | Some e \<Rightarrow>
             (Ends (Exited EXIT_FAILURE),
              on_me (\<lambda>p. perror os ''ERROR: Failed to execute command'' (p\<lparr>p_errno := e\<rparr>)) m))
      else if BACKGROUND \<notin> g_flags cmd then (Returns, on_me (sys_waitpid pid) m)
      else
        (Returns,
         on_me (\<lambda>p. case add_background_job pid arg0 p of
                      (jid, p') \<Rightarrow> print_job_bg_start jid pid arg0 p') m))"

definition run_generic :: "os \<Rightarrow> generic_command \<Rightarrow> machine \<Rightarrow> flow \<times> machine" where
  "run_generic os cmd m =
     (case g_args cmd of
        None \<Rightarrow> (Returns, on_me (fprintf_stderr (''ERROR: No command provided.'' @ [NL])) m)
      | Some [] \<Rightarrow> (Returns, on_me (fprintf_stderr (''ERROR: No command provided.'' @ [NL])) m)
      | Some (arg0 # rest) \<Rightarrow> sys_fork (run_generic_fork os cmd arg0 (arg0 # rest)) m)"

definition run_export :: "os \<Rightarrow> string \<Rightarrow> string \<Rightarrow> pstate \<Rightarrow> pstate" where
  "run_export os env_var val p =
     (case setenv env_var val p of
        (True, p') \<Rightarrow> p'
      | (False, p') \<Rightarrow> perror os ''ERROR: Failed to set environment variable'' p')"

definition run_cd :: "os \<Rightarrow> string option \<Rightarrow> pstate \<Rightarrow> pstate" where
  "run_cd os dir p =
     (case dir of
        None \<Rightarrow> perror os ''ERROR: Failed to resolve path'' p
      | Some d \<Rightarrow>
          (case os_realpath os (p_cwd p) d of
             Inl e \<Rightarrow> perror os ''ERROR: Failed to resolve absolute path'' (p\<lparr>p_errno := e\<rparr>)
           | Inr real_path \<Rightarrow>
               (case os_chdir os real_path of
                  Some e \<Rightarrow> perror os ''ERROR: Failed to change directory'' (p\<lparr>p_errno := e\<rparr>)
                | None \<Rightarrow>
                    (case getcwd_buf 1024 (p\<lparr>p_cwd := real_path\<rparr>) of
                       (Some cwd, p') \<Rightarrow> snd (setenv ''PWD'' cwd p')
                     | (None, p') \<Rightarrow> p'))))"

definition run_kill :: "os \<Rightarrow> int \<Rightarrow> int \<Rightarrow> pstate \<Rightarrow> pstate" where
  "run_kill os job sig p =
     (case os_kill os job sig of
        None \<Rightarrow> p\<lparr>p_trace := p_trace p @ [Signal job sig]\<rparr>
      | Some e \<Rightarrow> perror os ''ERROR: Failed to send signal'' (p\<lparr>p_errno := e\<rparr>))"

definition run_pwd :: "os \<Rightarrow> pstate \<Rightarrow> pstate" where
  "run_pwd os p =
     fflush_stdout
       (case getcwd_buf 1024 p of
          (Some cwd, p') \<Rightarrow> printf (cwd @ [NL]) p'
        | (None, p') \<Rightarrow> perror os ''ERROR: Failed to get current directory'' p')"

definition run_jobs :: "pstate \<Rightarrow> pstate" where
  "run_jobs p = fflush_stdout (list_background_jobs p)"

subsection \<open>Command resolution and process setup\<close>

definition child_run_command :: "os \<Rightarrow> command \<Rightarrow> machine \<Rightarrow> flow \<times> machine" where
  "child_run_command os cmd m =
     (case cmd of
        GENERIC g \<Rightarrow> run_generic os g m
      | ECHO args \<Rightarrow> (Returns, on_me (run_echo args) m)
      | PWD \<Rightarrow> (Returns, on_me (run_pwd os) m)
      | JOBS \<Rightarrow> (Returns, on_me run_jobs m)
      | _ \<Rightarrow> (Returns, on_me (fprintf_stderr (''Unknown command type.'' @ [NL])) m))"

definition parent_run_command :: "os \<Rightarrow> command \<Rightarrow> pstate \<Rightarrow> pstate" where
  "parent_run_command os cmd p =
     (case cmd of
        EXPORT env_var val \<Rightarrow> run_export os env_var val p
      | CD dir \<Rightarrow> run_cd os dir p
      | KILL job sig \<Rightarrow> run_kill os job sig p
      | _ \<Rightarrow> p)"

text \<open>The three redirection steps of the child, in the order of the source.\<close>

definition redirect_stdin :: "os \<Rightarrow> command_holder \<Rightarrow> pstate \<Rightarrow> pstate" where
  "redirect_stdin os holder p =
     (case sys_open os (redirect_in holder) False p of
        (fd, p') \<Rightarrow> sys_close fd (sys_dup2 fd STDIN_FILENO p'))"

definition redirect_stdout :: "os \<Rightarrow> command_holder \<Rightarrow> pstate \<Rightarrow> pstate" where
  "redirect_stdout os holder p =
     (case sys_open os (redirect_out holder) True p of
        (fd, p') \<Rightarrow> sys_close fd (sys_dup2 fd STDOUT_FILENO p'))"

definition pipe_stdout :: "int \<times> int \<Rightarrow> pstate \<Rightarrow> pstate" where
  "pipe_stdout fds p = sys_close (snd fds) (sys_close (fst fds) (sys_dup2 (snd fds) STDOUT_FILENO p))"

definition child_setup :: "os \<Rightarrow> command_holder \<Rightarrow> int \<times> int \<Rightarrow> pstate \<Rightarrow> pstate" where
  "child_setup os holder fds p =
     (let p1 = (if REDIRECT_IN \<in> h_flags holder then redirect_stdin os holder p else p);
          p2 = (if REDIRECT_OUT \<in> h_flags holder then redirect_stdout os holder p1 else p1)
      in if PIPE_OUT \<in> h_flags holder then pipe_stdout fds p2 else p2)"

definition create_process_fork ::
  "os \<Rightarrow> command_holder \<Rightarrow> int \<times> int \<Rightarrow> int \<Rightarrow> machine \<Rightarrow> flow \<times> machine" where
  "create_process_fork os holder fds pid m =
     (if pid = 0 then
        (case child_run_command os (h_cmd holder) (on_me (child_setup os holder fds) m) of
           (Returns, m') \<Rightarrow> (Ends (Exited EXIT_FAILURE), m')
         | (Ends e, m') \<Rightarrow> (Ends e, m'))
      else
        (Returns,
         on_me (parent_run_command os (h_cmd holder))
           (if PIPE_OUT \<in> h_flags holder then on_me (sys_close (snd fds)) m else m)))"

definition create_process :: "os \<Rightarrow> command_holder \<Rightarrow> machine \<Rightarrow> flow \<times> machine" where
  "create_process os holder m =
     (if PIPE_OUT \<in> h_flags holder then
        (case sys_pipe m of
           (Some fds, m') \<Rightarrow> sys_fork (create_process_fork os holder fds) m'
         | (None, m') \<Rightarrow> sys_fork (create_process_fork os holder (m_junk m')) m')
      else sys_fork (create_process_fork os holder (m_junk m)) m)"

subsection \<open>run_script\<close>

text \<open>The array of holders ends with a holder of type EOC.  A list without one makes
  the loops of the source read past the array: the model gives \<open>None\<close> there.\<close>

fun run_stages :: "os \<Rightarrow> command_holder list \<Rightarrow> machine \<Rightarrow> (flow \<times> machine) option" where
  "run_stages os [] m = None"
| "run_stages os (h # hs) m =
     (if is_EOC h then Some (Returns, m)
      else (case create_process os h m of
              (Returns, m') \<Rightarrow> run_stages os hs m'
            | (Ends e, m') \<Rightarrow> Some (Ends e, m')))"

fun wait_stages :: "command_holder list \<Rightarrow> pstate \<Rightarrow> pstate option" where
  "wait_stages [] p = None"
| "wait_stages (h # hs) p = (if is_EOC h then Some p else wait_stages hs (sys_wait p))"

definition run_script ::
  "bool \<Rightarrow> os \<Rightarrow> command_holder list option \<Rightarrow> machine \<Rightarrow> (flow \<times> machine) option" where
  "run_script macro_defined os holders m =
     (case holders of
        None \<Rightarrow> Some (Returns, m)
      | Some [] \<Rightarrow> None
      | Some (h0 # hs) \<Rightarrow>
          if is_EOC h0 then Some (Returns, m)
          else
            (case run_stages os (h0 # hs) (on_me (check_jobs_bg_status macro_defined) m) of
               None \<Rightarrow> None
             | Some (Ends e, m') \<Rightarrow> Some (Ends e, m')
             | Some (Returns, m') \<Rightarrow>
                 if BACKGROUND \<notin> h_flags h0 then
                   (case wait_stages (h0 # hs) (m_me m') of
                      None \<Rightarrow> None
                    | Some p \<Rightarrow> Some (Returns, m'\<lparr>m_me := p\<rparr>))
                 else Some (Returns, m')))"

subsection \<open>Auxiliary notions for the properties\<close>

text \<open>The content of one slot of a descriptor table, by recursion on the table.\<close>

fun slot :: "fdtable \<Rightarrow> nat \<Rightarrow> fobj option" where
  "slot [] n = None"
| "slot (x # t) 0 = x"
| "slot (x # t) (Suc n) = slot t n"

text \<open>A flow that is the end of a process as the source produces it: the image was
  replaced by \<^verbatim>\<open>execvp\<close>, or the process left through \<^verbatim>\<open>_exit(EXIT_FAILURE)\<close>.\<close>

definition replaced_or_failed :: "flow \<Rightarrow> bool" where
  "replaced_or_failed fl =
     (case fl of
        Returns \<Rightarrow> False
      | Ends (Exited st) \<Rightarrow> st = EXIT_FAILURE
      | Ends (Replaced a as) \<Rightarrow> True)"

text \<open>The completion notice for a job, as \<open>print_job_bg_complete\<close> writes it.\<close>

definition completion_notice :: "job \<Rightarrow> string" where
  "completion_notice j =
     ''Completed: '' @ [TAB] @ padded_job_line (job_id j) (job_pid j) (job_cmd j)"

text \<open>The directory a change of directory arrives in: the resolved path when
  \<^verbatim>\<open>realpath\<close> and \<^verbatim>\<open>chdir\<close> both succeed, \<open>None\<close> when the path is null or
  one of them fails.\<close>

definition cd_target :: "os \<Rightarrow> string option \<Rightarrow> pstate \<Rightarrow> string option" where
  "cd_target os dir p =
     (case dir of
        None \<Rightarrow> None
      | Some d \<Rightarrow>
          (case os_realpath os (p_cwd p) d of
             Inl e \<Rightarrow> None
           | Inr real_path \<Rightarrow>
               (case os_chdir os real_path of Some e \<Rightarrow> None | None \<Rightarrow> Some real_path)))"

subsection \<open>Concrete inputs\<close>

text \<open>A shell whose descriptors 0, 1 and 2 are the terminal, with nothing buffered.\<close>

definition shell0 :: pstate where
  "shell0 = \<lparr>p_pid = 1, p_fds = [Some Tty, Some Tty, Some Tty], p_cwd = ''/a/b'',
     p_env = [(''PWD'', ''/a/b'')], p_jobs = [], p_errno = ESUCCESS, p_obuf = [], p_trace = []\<rparr>"

definition machine0 :: machine where
  "machine0 = \<lparr>m_next_pid = 100, m_next_pipe = 0, m_fork_script = [], m_pipe_script = [],
     m_junk = (- 7, 12), m_me = shell0, m_spawned = []\<rparr>"

text \<open>An environment in which the directory \<open>/a\<close> exists, every file opens, every
  program is found and every signal is delivered.\<close>

definition os0 :: os where
  "os0 = \<lparr>os_realpath = (\<lambda>cwd path. if path = ''..'' \<and> cwd = ''/a/b'' then Inr ''/a''
                                     else if path = ''/a'' then Inr ''/a'' else Inl ENOENT),
          os_chdir = (\<lambda>path. None),
          os_open = (\<lambda>path wr. None),
          os_execvp = (\<lambda>prog. None),
          os_kill = (\<lambda>job sig. None),
          os_strerror = (\<lambda>e. ''error'')\<rparr>"

definition h_eoc :: command_holder where
  "h_eoc = \<lparr>redirect_in = None, redirect_out = None, h_flags = {}, h_cmd = EOC\<rparr>"

definition h_ls :: command_holder where
  "h_ls = \<lparr>redirect_in = None, redirect_out = None, h_flags = {PIPE_OUT},
           h_cmd = GENERIC \<lparr>g_args = Some [''ls''], g_flags = {}\<rparr>\<rparr>"

definition h_wc :: command_holder where
  "h_wc = \<lparr>redirect_in = None, redirect_out = None, h_flags = {},
           h_cmd = GENERIC \<lparr>g_args = Some [''wc''], g_flags = {}\<rparr>\<rparr>"

definition h_sleep_bg :: command_holder where
  "h_sleep_bg = \<lparr>redirect_in = None, redirect_out = None, h_flags = {BACKGROUND},
           h_cmd = GENERIC \<lparr>g_args = Some [''sleep'', ''10''], g_flags = {BACKGROUND}\<rparr>\<rparr>"

definition h_echo_both :: command_holder where
  "h_echo_both = \<lparr>redirect_in = None, redirect_out = Some ''out.txt'',
           h_flags = {REDIRECT_OUT, PIPE_OUT}, h_cmd = ECHO [''a'', ''b'']\<rparr>"

definition h_cd :: command_holder where
  "h_cd = \<lparr>redirect_in = None, redirect_out = None, h_flags = {}, h_cmd = CD (Some ''/a'')\<rparr>"

text \<open>A shell that tracks one job whose process has exited.\<close>

definition machine_fin :: machine where
  "machine_fin = machine0\<lparr>m_me := shell0\<lparr>p_jobs :=
     [\<lparr>job_id = 1, job_pid = 50, job_cmd = ''sleep'', job_state = Finished\<rparr>]\<rparr>\<rparr>"

text \<open>A machine on which the next \<^verbatim>\<open>fork\<close> fails.\<close>

definition machine_nofork :: machine where
  "machine_nofork = machine0\<lparr>m_fork_script := [Some EAGAIN]\<rparr>"

text \<open>An environment in which \<open>deep\<close> resolves to a directory 64 levels down, whose
  absolute path has 1024 characters.\<close>

definition long_path :: string where
  "long_path = concat (replicate 64 ''/ddddddddddddddd'')"

definition os_deep :: os where
  "os_deep = os0\<lparr>os_realpath := (\<lambda>cwd path. Inr long_path)\<rparr>"

text \<open>An environment in which no program can be executed, and the command \<open>wc\<close>.\<close>

definition os_noexec :: os where
  "os_noexec = os0\<lparr>os_execvp := (\<lambda>prog. Some ENOENT)\<rparr>"

definition g_wc :: generic_command where
  "g_wc = \<lparr>g_args = Some [''wc''], g_flags = {}\<rparr>"

section \<open>Properties\<close>

lemma echo_loop_obuf: "p_obuf (echo_loop args p) = p_obuf p @ concat (map (\<lambda>a. a @ '' '') args)"
  by (induction args arbitrary: p) (simp_all add: printf_def)

lemma echo_loop_other:
  "p_fds (echo_loop args p) = p_fds p \<and> p_trace (echo_loop args p) = p_trace p"
  by (induction args arbitrary: p) (simp_all add: printf_def)

subsection \<open>Descriptor tables\<close>

text \<open>Every operation on a descriptor table is described by what \<open>fd_lookup\<close> finds
  afterwards.\<close>

lemma slot_nth: "slot t n = (if n < length t then t ! n else None)"
  by (induction t n rule: slot.induct) auto

lemma fd_lookup_slot: "fd_lookup t fd = (if 0 \<le> fd then slot t (nat fd) else None)"
  by (simp add: fd_lookup_def slot_nth)

lemma slot_install: "slot (fd_install t k ob) j = (if j = k then Some ob else slot t j)"
proof (induction t k ob arbitrary: j rule: fd_install.induct)
  case (1 ob)
  then show ?case by (cases j) auto
next
  case (2 n ob)
  then show ?case by (cases j) auto
next
  case (3 x t ob)
  then show ?case by (cases j) auto
next
  case (4 x t n ob)
  then show ?case by (cases j) auto
qed

lemma fd_lookup_install:
  "fd_lookup (fd_install t k ob) fd = (if fd = int k then Some ob else fd_lookup t fd)"
  by (auto simp: fd_lookup_slot slot_install)

lemma slot_lowest_free: "slot t (lowest_free t) = None"
  by (induction t rule: lowest_free.induct) auto

lemma fd_lookup_lowest_free: "fd_lookup t (int (lowest_free t)) = None"
  by (simp add: fd_lookup_slot slot_lowest_free)

lemma lowest_free_zero: "slot t 0 = None \<Longrightarrow> lowest_free t = 0"
  by (cases t) auto

lemma fd_lookup_update_None:
  "fd_lookup (t[k := None]) fd = (if fd = int k then None else fd_lookup t fd)"
  by (auto simp: fd_lookup_def nth_list_update)

lemma fd_lookup_close:
  "fd_lookup (p_fds (sys_close fd p)) j = (if j = fd then None else fd_lookup (p_fds p) j)"
proof (cases "fd_lookup (p_fds p) fd")
  case None
  then show ?thesis by (auto simp: sys_close_def)
next
  case (Some ob)
  then have "0 \<le> fd" by (auto simp: fd_lookup_def split: if_splits)
  with Some show ?thesis by (auto simp: sys_close_def fd_lookup_update_None)
qed

lemma fd_lookup_dup2:
  "fd_lookup (p_fds (sys_dup2 oldfd newfd p)) j =
     (case fd_lookup (p_fds p) oldfd of
        None \<Rightarrow> fd_lookup (p_fds p) j
      | Some ob \<Rightarrow> if j = int newfd then Some ob else fd_lookup (p_fds p) j)"
  by (simp add: sys_dup2_def fd_lookup_install split: option.splits)

lemma fd_lookup_minus_one: "fd_lookup t (- 1) = None"
  by (simp add: fd_lookup_def)

lemma sys_open_frame:
  assumes "sys_open os path wr p = (fd, p')"
  shows "fd_lookup (p_fds p) fd = None
       \<and> (\<forall>j. j \<noteq> fd \<longrightarrow> fd_lookup (p_fds p') j = fd_lookup (p_fds p) j)"
  using assms
  by (auto simp: sys_open_def Let_def fd_lookup_install fd_lookup_lowest_free
      fd_lookup_minus_one split: option.splits)

lemma redirect_stdout_keeps:
  assumes "fd_lookup (p_fds p) j = Some x" and "j \<noteq> 1"
  shows "fd_lookup (p_fds (redirect_stdout os h p)) j = Some x"
proof -
  obtain fd p' where o: "sys_open os (redirect_out h) True p = (fd, p')"
    by (cases "sys_open os (redirect_out h) True p")
  from sys_open_frame [OF o] assms have ne: "j \<noteq> fd"
    by force
  with sys_open_frame [OF o] assms have "fd_lookup (p_fds p') j = Some x"
    by simp
  with ne assms o show ?thesis
    by (simp add: redirect_stdout_def fd_lookup_close fd_lookup_dup2 STDOUT_FILENO_def
        split: option.splits)
qed

lemma redirect_stdin_keeps:
  assumes "fd_lookup (p_fds p) j = Some x" and "j \<noteq> 0"
  shows "fd_lookup (p_fds (redirect_stdin os h p)) j = Some x"
proof -
  obtain fd p' where o: "sys_open os (redirect_in h) False p = (fd, p')"
    by (cases "sys_open os (redirect_in h) False p")
  from sys_open_frame [OF o] assms have ne: "j \<noteq> fd"
    by force
  with sys_open_frame [OF o] assms have "fd_lookup (p_fds p') j = Some x"
    by simp
  with ne assms o show ?thesis
    by (simp add: redirect_stdin_def fd_lookup_close fd_lookup_dup2 STDIN_FILENO_def
        split: option.splits)
qed

lemma pipe_stdout_wires:
  assumes "fd_lookup (p_fds p) w = Some ob" and "w \<noteq> 1" and "r \<noteq> 1"
  shows "fd_lookup (p_fds (pipe_stdout (r, w) p)) 1 = Some ob"
  using assms by (simp add: pipe_stdout_def fd_lookup_close fd_lookup_dup2 STDOUT_FILENO_def)

lemma child_setup_pipe_wins:
  assumes "PIPE_OUT \<in> h_flags h" and "fd_lookup (p_fds p) w = Some ob"
    and "w \<noteq> 0" and "w \<noteq> 1" and "r \<noteq> 1"
  shows "fd_lookup (p_fds (child_setup os h (r, w) p)) 1 = Some ob"
  using assms
  by (simp add: child_setup_def Let_def pipe_stdout_wires redirect_stdout_keeps
      redirect_stdin_keeps)

lemma sys_pipe_ok:
  assumes "next_failure (m_pipe_script m) = None" and "fd_lookup (p_fds (m_me m)) 1 \<noteq> None"
  shows "\<exists>r w m1. sys_pipe m = (Some (r, w), m1) \<and> w \<noteq> 0 \<and> w \<noteq> 1 \<and> r \<noteq> 1
           \<and> fd_lookup (p_fds (m_me m1)) w = Some (PipeW (m_next_pipe m))
           \<and> m_fork_script m1 = m_fork_script m \<and> m_spawned m1 = m_spawned m
           \<and> m_next_pid m1 = m_next_pid m \<and> p_pid (m_me m1) = p_pid (m_me m)"
proof -
  define t where "t = p_fds (m_me m)"
  define r where "r = lowest_free t"
  define t1 where "t1 = fd_install t r (PipeR (m_next_pipe m))"
  define w where "w = lowest_free t1"
  have r1: "r \<noteq> 1"
    using assms(2) fd_lookup_lowest_free [of t] by (auto simp: r_def t_def)
  have occ1: "fd_lookup t1 1 \<noteq> None"
    using assms(2) by (simp add: t1_def fd_lookup_install t_def)
  have w1: "w \<noteq> 1"
    using occ1 fd_lookup_lowest_free [of t1] by (auto simp: w_def)
  have w0: "w \<noteq> 0"
  proof
    assume "w = 0"
    then have "slot t1 0 = None" using slot_lowest_free [of t1] by (simp add: w_def)
    then have "r \<noteq> 0 \<and> slot t 0 = None"
      by (auto simp: t1_def slot_install split: if_splits)
    then show False using lowest_free_zero [of t] by (simp add: r_def)
  qed
  show ?thesis
    using assms(1) r1 w1 w0
    by (simp add: sys_pipe_def Let_def fd_lookup_install t_def [symmetric] r_def [symmetric]
        t1_def [symmetric] w_def [symmetric])
qed

subsection \<open>What the calls leave alone\<close>

lemma sys_write_frame [simp]:
  "p_fds (sys_write fd s p) = p_fds p" "p_pid (sys_write fd s p) = p_pid p"
  by (simp_all add: sys_write_def split: option.splits)

lemma printf_frame [simp]:
  "p_fds (printf s p) = p_fds p" "p_pid (printf s p) = p_pid p"
  by (simp_all add: printf_def)

lemma fflush_stdout_frame [simp]:
  "p_fds (fflush_stdout p) = p_fds p" "p_pid (fflush_stdout p) = p_pid p"
  by (simp_all add: fflush_stdout_def)

lemma fprintf_stderr_frame [simp]:
  "p_fds (fprintf_stderr s p) = p_fds p" "p_pid (fprintf_stderr s p) = p_pid p"
  by (simp_all add: fprintf_stderr_def)

lemma perror_frame [simp]:
  "p_fds (perror os s p) = p_fds p" "p_pid (perror os s p) = p_pid p"
  by (simp_all add: perror_def)

lemma print_job_frame [simp]:
  "p_fds (print_job jid pid cmd p) = p_fds p" "p_pid (print_job jid pid cmd p) = p_pid p"
  by (simp_all add: print_job_def)

lemma print_job_bg_start_frame [simp]:
  "p_fds (print_job_bg_start jid pid cmd p) = p_fds p"
  "p_pid (print_job_bg_start jid pid cmd p) = p_pid p"
  by (simp_all add: print_job_bg_start_def)

lemma echo_loop_frame [simp]:
  "p_fds (echo_loop args p) = p_fds p" "p_pid (echo_loop args p) = p_pid p"
  by (induction args arbitrary: p; simp)+

lemma run_echo_frame [simp]:
  "p_fds (run_echo args p) = p_fds p" "p_pid (run_echo args p) = p_pid p"
  by (simp_all add: run_echo_def)

lemma run_pwd_frame [simp]:
  "p_fds (run_pwd os p) = p_fds p" "p_pid (run_pwd os p) = p_pid p"
  by (simp_all add: run_pwd_def getcwd_buf_def)

lemma list_jobs_loop_frame [simp]:
  "p_fds (list_jobs_loop js p) = p_fds p" "p_pid (list_jobs_loop js p) = p_pid p"
  by (induction js arbitrary: p; simp)+

lemma run_jobs_frame [simp]:
  "p_fds (run_jobs p) = p_fds p" "p_pid (run_jobs p) = p_pid p"
  by (simp_all add: run_jobs_def list_background_jobs_def)

lemma fork_child_me [simp]:
  "p_fds (m_me (fork_child m)) = p_fds (m_me m)"
  "p_pid (m_me (fork_child m)) = m_next_pid m"
  "p_trace (m_me (fork_child m)) = []"
  "p_errno (m_me (fork_child m)) = p_errno (m_me m)"
  "m_spawned (fork_child m) = []"
  "m_next_pid (fork_child m) = m_next_pid m + 1"
  by (simp_all add: fork_child_def)

lemma sys_write_trace [simp]: "set (p_trace p) \<subseteq> set (p_trace (sys_write fd s p))"
  by (auto simp: sys_write_def split: option.splits)

lemma fflush_stdout_trace [simp]: "set (p_trace p) \<subseteq> set (p_trace (fflush_stdout p))"
  using sys_write_trace [of p] by (simp add: fflush_stdout_def)

lemma fprintf_stderr_trace [simp]: "set (p_trace p) \<subseteq> set (p_trace (fprintf_stderr s p))"
  by (simp add: fprintf_stderr_def)

lemma perror_trace_sub [simp]:
  "set (p_trace p) \<subseteq> set (p_trace (perror os s p))"
  "set (p_trace p) \<subseteq> set (p_trace (perror os s (p\<lparr>p_errno := e\<rparr>)))"
  using sys_write_trace [of "p\<lparr>p_errno := e\<rparr>"] by (simp_all add: perror_def)

lemma printf_trace [simp]: "p_trace (printf s p) = p_trace p"
  by (simp add: printf_def)

lemma echo_loop_trace [simp]: "p_trace (echo_loop args p) = p_trace p"
  by (induction args arbitrary: p) simp_all

lemma list_jobs_loop_trace [simp]: "p_trace (list_jobs_loop js p) = p_trace p"
  by (induction js arbitrary: p) simp_all

lemma run_echo_trace [simp]: "set (p_trace p) \<subseteq> set (p_trace (run_echo args p))"
  using fflush_stdout_trace [of "printf [NL] (echo_loop args p)"] by (simp add: run_echo_def)

lemma run_jobs_trace [simp]: "set (p_trace p) \<subseteq> set (p_trace (run_jobs p))"
  using fflush_stdout_trace [of "list_background_jobs p"]
  by (simp add: run_jobs_def list_background_jobs_def)

lemma run_pwd_trace [simp]: "set (p_trace p) \<subseteq> set (p_trace (run_pwd os p))"
proof (cases "length (p_cwd p) + 1 \<le> 1024")
  case True
  with fflush_stdout_trace [of "printf (p_cwd p @ [NL]) p"] show ?thesis
    by (simp add: run_pwd_def getcwd_buf_def)
next
  case False
  let ?q = "perror os ''ERROR: Failed to get current directory'' (p\<lparr>p_errno := ERANGE\<rparr>)"
  have "set (p_trace p) \<subseteq> set (p_trace ?q)"
    by simp
  also have "\<dots> \<subseteq> set (p_trace (fflush_stdout ?q))"
    by simp
  finally show ?thesis
    using False by (simp add: run_pwd_def getcwd_buf_def)
qed

lemma sys_close_trace [simp]: "p_trace (sys_close fd p) = p_trace p"
  by (simp add: sys_close_def split: option.splits)

lemma sys_dup2_trace [simp]: "p_trace (sys_dup2 oldfd newfd p) = p_trace p"
  by (simp add: sys_dup2_def split: option.splits)

text \<open>run_generic when the vector is not empty and fork succeeds.\<close>

lemma run_generic_forked:
  assumes "g_args cmd = Some (arg0 # rest)" and "next_failure (m_fork_script m) = None"
    and "0 < m_next_pid m"
  shows "\<exists>m' child. run_generic os cmd m = (Returns, m')
     \<and> m_spawned m' = m_spawned m @ [child]
     \<and> pr_parent child = p_pid (m_me m)
     \<and> p_pid (pr_state child) = m_next_pid m
     \<and> p_fds (pr_state child) = p_fds (m_me m)
     \<and> pr_flow child =
         (case os_execvp os arg0 of
            None \<Rightarrow> Ends (Replaced arg0 (arg0 # rest))
          | Some e \<Rightarrow> Ends (Exited EXIT_FAILURE))
     \<and> p_trace (pr_state child) =
         (case os_execvp os arg0 of
            None \<Rightarrow> []
          | Some e \<Rightarrow>
              (case fd_lookup (p_fds (m_me m)) 2 of
                 None \<Rightarrow> []
               | Some ob \<Rightarrow>
                   [Write ob (''ERROR: Failed to execute command: '' @ os_strerror os e @ [NL])]))
     \<and> p_fds (m_me m') = p_fds (m_me m)
     \<and> p_pid (m_me m') = p_pid (m_me m)
     \<and> set (p_trace (m_me m)) \<subseteq> set (p_trace (m_me m'))"
  using assms
  by (auto simp: run_generic_def sys_fork_def run_generic_fork_def fork_parent_def on_me_def
      sys_waitpid_def add_background_job_def Let_def perror_def sys_write_def STDERR_FILENO_def
      fork_child_def print_job_bg_start_def print_job_def fflush_stdout_def printf_def
      split: option.splits prod.splits)

lemma run_generic_returns:
  assumes "0 < m_next_pid m"
  shows "\<exists>m' new. run_generic os cmd m = (Returns, m')
     \<and> p_fds (m_me m') = p_fds (m_me m) \<and> p_pid (m_me m') = p_pid (m_me m)
     \<and> m_spawned m' = m_spawned m @ new
     \<and> list_all (\<lambda>d. pr_parent d = p_pid (m_me m) \<and> replaced_or_failed (pr_flow d)) new
     \<and> set (p_trace (m_me m)) \<subseteq> set (p_trace (m_me m'))"
proof (cases "g_args cmd")
  case None
  then show ?thesis by (simp add: run_generic_def on_me_def)
next
  case (Some args)
  show ?thesis
  proof (cases args)
    case Nil
    with Some show ?thesis by (simp add: run_generic_def on_me_def)
  next
    case (Cons arg0 rest)
    show ?thesis
    proof (cases "next_failure (m_fork_script m)")
      case None
      from run_generic_forked [OF Some [unfolded Cons] None assms, of os]
      obtain m' child where r: "run_generic os cmd m = (Returns, m')"
        "m_spawned m' = m_spawned m @ [child]" "pr_parent child = p_pid (m_me m)"
        "pr_flow child = (case os_execvp os arg0 of None \<Rightarrow> Ends (Replaced arg0 (arg0 # rest))
            | Some e \<Rightarrow> Ends (Exited EXIT_FAILURE))"
        "p_fds (m_me m') = p_fds (m_me m)" "p_pid (m_me m') = p_pid (m_me m)"
        "set (p_trace (m_me m)) \<subseteq> set (p_trace (m_me m'))"
        by blast
      then have "replaced_or_failed (pr_flow child)"
        by (simp add: replaced_or_failed_def split: option.splits)
      with r show ?thesis by simp
    next
      case (Some e)
      with \<open>g_args cmd = Some args\<close> Cons show ?thesis
        by (simp add: run_generic_def sys_fork_def run_generic_fork_def on_me_def)
    qed
  qed
qed

lemma child_run_command_returns:
  assumes "0 < m_next_pid m"
  shows "\<exists>m' new. child_run_command os cmd m = (Returns, m')
     \<and> p_fds (m_me m') = p_fds (m_me m) \<and> p_pid (m_me m') = p_pid (m_me m)
     \<and> m_spawned m' = m_spawned m @ new
     \<and> list_all (\<lambda>d. pr_parent d = p_pid (m_me m) \<and> replaced_or_failed (pr_flow d)) new
     \<and> set (p_trace (m_me m)) \<subseteq> set (p_trace (m_me m'))"
proof (cases cmd)
  case (GENERIC g)
  with run_generic_returns [OF assms, of os g] show ?thesis
    by (simp add: child_run_command_def)
qed (simp_all add: child_run_command_def on_me_def)

lemma sys_close_pid [simp]: "p_pid (sys_close fd p) = p_pid p"
  by (simp add: sys_close_def split: option.splits)

lemma sys_dup2_pid [simp]: "p_pid (sys_dup2 oldfd newfd p) = p_pid p"
  by (simp add: sys_dup2_def split: option.splits)

lemma sys_open_pid: "sys_open os path wr p = (fd, p') \<Longrightarrow> p_pid p' = p_pid p"
  by (auto simp: sys_open_def Let_def split: option.splits)

lemma redirect_stdin_pid [simp]: "p_pid (redirect_stdin os holder p) = p_pid p"
  by (cases "sys_open os (redirect_in holder) False p")
    (simp add: redirect_stdin_def sys_open_pid)

lemma redirect_stdout_pid [simp]: "p_pid (redirect_stdout os holder p) = p_pid p"
  by (cases "sys_open os (redirect_out holder) True p")
    (simp add: redirect_stdout_def sys_open_pid)

lemma child_setup_pid [simp]: "p_pid (child_setup os holder fds p) = p_pid p"
  by (simp add: child_setup_def Let_def pipe_stdout_def)

text \<open>create_process when fork succeeds: the process of the stage and its children.\<close>

lemma create_process_fork_child:
  assumes "0 < m_next_pid m"
  shows "\<exists>mc. create_process_fork os holder fds 0 (fork_child m) = (Ends (Exited EXIT_FAILURE), mc)
     \<and> p_fds (m_me mc) = p_fds (child_setup os holder fds (m_me (fork_child m)))
     \<and> p_pid (m_me mc) = m_next_pid m
     \<and> list_all (\<lambda>d. pr_parent d = m_next_pid m \<and> replaced_or_failed (pr_flow d)) (m_spawned mc)
     \<and> set (p_trace (child_setup os holder fds (m_me (fork_child m)))) \<subseteq> set (p_trace (m_me mc))"
proof -
  let ?m1 = "on_me (child_setup os holder fds) (fork_child m)"
  have pos: "0 < m_next_pid ?m1"
    using assms by (simp add: on_me_def)
  from child_run_command_returns [OF pos, of os "h_cmd holder"]
  show ?thesis
    by (auto simp: create_process_fork_def on_me_def)
qed

lemma sys_fork_create_process:
  assumes "0 < m_next_pid m" and "next_failure (m_fork_script m) = None"
  shows "\<exists>m' st rest. sys_fork (create_process_fork os holder fds) m = (Returns, m')
     \<and> m_spawned m' = m_spawned m @ st # rest
     \<and> pr_parent st = p_pid (m_me m) \<and> p_pid (pr_state st) = m_next_pid m
     \<and> pr_flow st = Ends (Exited EXIT_FAILURE)
     \<and> p_fds (pr_state st) = p_fds (child_setup os holder fds (m_me (fork_child m)))
     \<and> list_all (\<lambda>d. pr_parent d = m_next_pid m \<and> replaced_or_failed (pr_flow d)) rest
     \<and> set (p_trace (child_setup os holder fds (m_me (fork_child m)))) \<subseteq> set (p_trace (pr_state st))"
proof -
  from create_process_fork_child [OF assms(1), of os holder fds]
  obtain mc where c: "create_process_fork os holder fds 0 (fork_child m) = (Ends (Exited EXIT_FAILURE), mc)"
    "p_fds (m_me mc) = p_fds (child_setup os holder fds (m_me (fork_child m)))"
    "p_pid (m_me mc) = m_next_pid m"
    "list_all (\<lambda>d. pr_parent d = m_next_pid m \<and> replaced_or_failed (pr_flow d)) (m_spawned mc)"
    "set (p_trace (child_setup os holder fds (m_me (fork_child m)))) \<subseteq> set (p_trace (m_me mc))"
    by blast
  from assms have "m_next_pid m \<noteq> 0" by simp
  with assms(2) c show ?thesis
    by (simp add: sys_fork_def fork_parent_def create_process_fork_def [of os holder fds "m_next_pid m"]
        on_me_def)
qed

lemma sys_fork_failed:
  assumes "next_failure (m_fork_script m) = Some e"
  shows "\<exists>m'. sys_fork (create_process_fork os holder fds) m = (Returns, m')
     \<and> m_spawned m' = m_spawned m"
  using assms by (simp add: sys_fork_def create_process_fork_def on_me_def)

lemma sys_pipe_frame:
  assumes "sys_pipe m = (x, m1)"
  shows "m_next_pid m1 = m_next_pid m \<and> m_fork_script m1 = m_fork_script m
       \<and> m_spawned m1 = m_spawned m \<and> p_pid (m_me m1) = p_pid (m_me m)"
  using assms by (auto simp: sys_pipe_def Let_def split: option.splits)

lemma perror_trace:
  "p_trace (perror os s p) =
     (case fd_lookup (p_fds p) 2 of
        None \<Rightarrow> p_trace p
      | Some ob \<Rightarrow> p_trace p @ [Write ob (s @ '': '' @ os_strerror os (p_errno p) @ [NL])])"
  by (simp add: perror_def sys_write_def STDERR_FILENO_def split: option.splits)

lemma perror_keeps [simp]:
  "p_cwd (perror os s p) = p_cwd p" "p_env (perror os s p) = p_env p"
  by (simp_all add: perror_def sys_write_def split: option.splits)

subsection \<open>Print\<close>

text \<open>
  Claim C8.  For every argument vector, Print (\<open>run_echo\<close>) writes each argument followed
  by one space and then one line terminator to the file behind descriptor 1, after
  whatever was still buffered; for the arguments \<open>a\<close>, \<open>b\<close> and an empty buffer the
  bytes are exactly \<open>a b \<close> and the line terminator.
\<close>

theorem run_echo_output:
  assumes "fd_lookup (p_fds p) 1 = Some ob"
  shows "p_trace (run_echo args p) =
           p_trace p @ [Write ob (p_obuf p @ concat (map (\<lambda>a. a @ '' '') args) @ [NL])]
         \<and> p_obuf (run_echo args p) = []"
  using assms
  by (simp add: run_echo_def fflush_stdout_def printf_def sys_write_def STDOUT_FILENO_def
      echo_loop_obuf echo_loop_other)

theorem run_echo_output_witness:
  "fd_lookup (p_fds shell0) 1 = Some Tty
   \<and> p_trace (run_echo [''a'', ''b''] shell0) = [Write Tty ''a b \<newline>'']
   \<and> written_to Tty (p_trace (run_echo [''a'', ''b''] shell0)) = ''a b \<newline>''"
proof -
  have h: "fd_lookup (p_fds shell0) 1 = Some Tty"
    by (simp add: shell0_def fd_lookup_def)
  from run_echo_output [OF h, of "[''a'', ''b'']"] h show ?thesis
    by (simp add: shell0_def NL_def)
qed

subsection \<open>Job lines\<close>

lemma print_job_trace:
  "p_trace (print_job jid pid cmd p) =
     (case fd_lookup (p_fds p) 1 of
        None \<Rightarrow> p_trace p
      | Some ob \<Rightarrow> p_trace p @ [Write ob (p_obuf p @ padded_job_line jid pid cmd)])"
  by (simp add: print_job_def fflush_stdout_def printf_def sys_write_def STDOUT_FILENO_def
      padded_job_line_def fmt_8d_def split: option.splits)

lemma padded_is_spec_iff:
  "padded_job_line jid pid cmd = spec_job_line jid pid cmd \<longleftrightarrow> 8 \<le> length (fmt_d pid)"
  by (auto simp add: padded_job_line_def spec_job_line_def)

text \<open>
  Claim C9, as the specification states it, fails: for job 1 with process id 1234 and
  display string \<open>sleep\<close> none of the three lines the code writes is the line of the
  specification, because \<^verbatim>\<open>%8d\<close> pads the process id with four blanks.
\<close>

theorem job_line_counterexample:
  "written_to Tty (p_trace (print_job 1 1234 ''sleep'' shell0)) \<noteq> spec_job_line 1 1234 ''sleep''
   \<and> written_to Tty (p_trace (print_job_bg_start 1 1234 ''sleep'' shell0))
        \<noteq> spec_start_line 1 1234 ''sleep''
   \<and> written_to Tty (p_trace (print_job_bg_complete 1 1234 ''sleep'' shell0))
        \<noteq> spec_complete_line 1 1234 ''sleep''"
  by code_simp

text \<open>
  Claim C9, amended.  With nothing buffered, \<open>print_job\<close> writes the job line, the start
  notice is \<open>Background job started: \<close> followed by it and the completion notice is
  \<open>Completed: \<close>, a tab, followed by it; in the job line the fields are separated by
  single tabs and the process id is right-justified with blanks to a width of eight.  The
  line is the one of the specification exactly when the process id prints with eight or
  more characters.
\<close>

theorem job_lines_padded:
  assumes "fd_lookup (p_fds p) 1 = Some ob" and "p_obuf p = []"
  shows "p_trace (print_job jid pid cmd p) = p_trace p @ [Write ob (padded_job_line jid pid cmd)]
    \<and> p_trace (print_job_bg_start jid pid cmd p) =
           p_trace p @ [Write ob (''Background job started: '' @ padded_job_line jid pid cmd)]
    \<and> p_trace (print_job_bg_complete jid pid cmd p) =
           p_trace p @ [Write ob (''Completed: '' @ [TAB] @ padded_job_line jid pid cmd)]
    \<and> (padded_job_line jid pid cmd = spec_job_line jid pid cmd \<longleftrightarrow> 8 \<le> length (fmt_d pid))"
  using assms
  by (simp add: print_job_bg_start_def print_job_bg_complete_def print_job_trace printf_def
      padded_is_spec_iff)

theorem job_lines_padded_witness:
  "fd_lookup (p_fds shell0) 1 = Some Tty \<and> p_obuf shell0 = []
   \<and> p_trace (print_job 1 1234 ''sleep'' shell0) =
        [Write Tty (''[1]'' @ [TAB] @ ''    1234'' @ [TAB] @ ''sleep'' @ [NL])]
   \<and> p_trace (print_job_bg_start 1 1234 ''sleep'' shell0) =
        [Write Tty (''Background job started: [1]'' @ [TAB] @ ''    1234'' @ [TAB] @ ''sleep'' @ [NL])]
   \<and> p_trace (print_job_bg_complete 1 1234 ''sleep'' shell0) =
        [Write Tty (''Completed: '' @ [TAB] @ ''[1]'' @ [TAB] @ ''    1234'' @ [TAB] @ ''sleep'' @ [NL])]
   \<and> padded_job_line 1 1234 ''sleep'' \<noteq> spec_job_line 1 1234 ''sleep''"
proof -
  have h1: "fd_lookup (p_fds shell0) 1 = Some Tty"
    by (simp add: shell0_def fd_lookup_def)
  have h2: "p_obuf shell0 = []"
    by (simp add: shell0_def)
  have d: "fmt_d 1234 = ''1234''" "fmt_d 1 = ''1''"
    by code_simp+
  have pl: "padded_job_line 1 1234 ''sleep'' = ''[1]'' @ [TAB] @ ''    1234'' @ [TAB] @ ''sleep'' @ [NL]"
    by (simp add: padded_job_line_def d numeral_eq_Suc)
  from job_lines_padded [OF h1 h2, of 1 1234 "''sleep''"] h1 h2 show ?thesis
    by (simp add: pl d shell0_def)
qed

subsection \<open>Pipes between stages\<close>

text \<open>
  Claim C1 at the pipeline \<open>ls | wc\<close>.  The claim asks that the read end of the pipe
  made for stage 0 be the standard input of the process of stage 1.  The code gives the
  write end to stage 0 (process 100 and the program \<open>ls\<close> it starts, process 101), but
  the processes of stage 1 (102 and the program \<open>wc\<close>, 103) keep the terminal as
  descriptor 0; the read end stays on descriptor 3 of the shell.
\<close>

theorem pipe_read_end_not_stdin:
  "(case run_script False os0 (Some [h_ls, h_wc, h_eoc]) machine0 of
      Some (Returns, m) \<Rightarrow>
        map (\<lambda>pr. (p_pid (pr_state pr), pr_flow pr,
                    fd_lookup (p_fds (pr_state pr)) 0, fd_lookup (p_fds (pr_state pr)) 1))
          (m_spawned m)
        = [(100, Ends (Exited EXIT_FAILURE), Some Tty, Some (PipeW 0)),
           (101, Ends (Replaced ''ls'' [''ls'']), Some Tty, Some (PipeW 0)),
           (102, Ends (Exited EXIT_FAILURE), Some Tty, Some Tty),
           (103, Ends (Replaced ''wc'' [''wc'']), Some Tty, Some Tty)]
        \<and> fd_lookup (p_fds (m_me m)) 3 = Some (PipeR 0)
    | _ \<Rightarrow> False)"
  by code_simp

subsection \<open>Completion poll\<close>

lemma take_finished_None:
  "take_finished reg = None \<Longrightarrow> filter (\<lambda>j. job_state j = Finished) reg = []"
  by (induction reg) (auto split: if_splits option.splits)

lemma take_finished_Some:
  "take_finished reg = Some (j, r) \<Longrightarrow>
     filter (\<lambda>j. job_state j = Finished) reg = j # filter (\<lambda>j. job_state j = Finished) r
     \<and> filter (\<lambda>j. job_state j \<noteq> Finished) reg = filter (\<lambda>j. job_state j \<noteq> Finished) r"
  by (induction reg arbitrary: j r) (auto split: if_splits option.splits)

lemma take_finished_None_keep:
  "take_finished reg = None \<Longrightarrow> filter (\<lambda>j. job_state j \<noteq> Finished) reg = reg"
  by (induction reg) (auto split: if_splits option.splits)

lemma print_job_bg_complete_state:
  assumes "fd_lookup (p_fds p) 1 = Some ob" and "p_obuf p = []"
  shows "p_trace (print_job_bg_complete jid pid cmd p) =
           p_trace p @ [Write ob (''Completed: '' @ [TAB] @ padded_job_line jid pid cmd)]
       \<and> p_obuf (print_job_bg_complete jid pid cmd p) = []
       \<and> p_fds (print_job_bg_complete jid pid cmd p) = p_fds p"
  using assms
  by (simp add: print_job_bg_complete_def print_job_trace printf_def)
     (simp add: print_job_def fflush_stdout_def printf_def)

lemma poll_loop_drains:
  assumes "fd_lookup (p_fds p) 1 = Some ob" and "p_obuf p = []"
  shows "p_jobs (poll_loop p) = filter (\<lambda>j. job_state j \<noteq> Finished) (p_jobs p)
       \<and> p_trace (poll_loop p) =
           p_trace p @ map (\<lambda>j. Write ob (completion_notice j))
                        (filter (\<lambda>j. job_state j = Finished) (p_jobs p))"
  using assms
proof (induction p rule: poll_loop.induct)
  case (1 p)
  show ?case
  proof (cases "take_finished (p_jobs p)")
    case None
    then show ?thesis
      by (simp add: poll_loop.simps [of p] get_finished_job_def take_finished_None
          take_finished_None_keep)
  next
    case (Some jr)
    obtain j r where jr: "jr = (j, r)" by (cases jr)
    let ?p' = "p\<lparr>p_jobs := r\<rparr>"
    let ?q = "print_job_bg_complete (job_id j) (job_pid j) (job_cmd j) ?p'"
    have g: "get_finished_job p = (Some (job_id j, job_pid j, job_cmd j), ?p')"
      using Some jr by (simp add: get_finished_job_def)
    have st: "p_trace ?q = p_trace p @ [Write ob (completion_notice j)]"
      "p_obuf ?q = []" "p_fds ?q = p_fds p"
      using print_job_bg_complete_state [of ?p' ob "job_id j" "job_pid j" "job_cmd j"] "1.prems"
      by (simp_all add: completion_notice_def)
    have jobs: "p_jobs ?q = r"
      by (simp add: print_job_bg_complete_jobs)
    have ih: "p_jobs (poll_loop ?q) = filter (\<lambda>j. job_state j \<noteq> Finished) (p_jobs ?q)
       \<and> p_trace (poll_loop ?q) =
           p_trace ?q @ map (\<lambda>j. Write ob (completion_notice j))
                        (filter (\<lambda>j. job_state j = Finished) (p_jobs ?q))"
      using "1.IH" [OF g [symmetric] refl refl refl] st "1.prems" by simp
    have unf: "poll_loop p = poll_loop ?q"
      using g by (simp add: poll_loop.simps [of p])
    from take_finished_Some [OF Some [unfolded jr]] ih st jobs unf show ?thesis
      by simp
  qed
qed

text \<open>
  Claim C2 at a shell that tracks one finished job and runs the pipeline \<open>wc\<close>.  The
  claim asks for one completion notice and for the job to leave the registry before the
  stage is spawned.  With \<^verbatim>\<open>get_finished_job\<close> a function and not a macro, the loop is
  compiled out: the shell writes nothing and still tracks job 1.  Were the macro
  defined, the notice would come first and the registry would be empty.
\<close>

theorem finished_job_not_polled:
  "(case run_script False os0 (Some [h_wc, h_eoc]) machine_fin of
      Some (Returns, m) \<Rightarrow>
        map job_id (p_jobs (m_me m)) = [1]
        \<and> p_trace (m_me m) = [Forked 100, WaitAny]
    | _ \<Rightarrow> False)
   \<and> (case run_script True os0 (Some [h_wc, h_eoc]) machine_fin of
      Some (Returns, m) \<Rightarrow>
        p_jobs (m_me m) = []
        \<and> p_trace (m_me m) =
            [Write Tty (''Completed: '' @ [TAB] @ ''[1]'' @ [TAB] @ ''      50'' @ [TAB] @ ''sleep'' @ [NL]),
             Forked 100, WaitAny]
    | _ \<Rightarrow> False)"
  by code_simp

subsection \<open>Background stages\<close>

lemma perror_jobs [simp]: "p_jobs (perror os s p) = p_jobs p"
  by (simp add: perror_def sys_write_def split: option.splits)

lemma sys_close_jobs [simp]: "p_jobs (sys_close fd p) = p_jobs p"
  by (simp add: sys_close_def split: option.splits)

lemma parent_run_command_jobs [simp]: "p_jobs (parent_run_command os cmd p) = p_jobs p"
  by (cases cmd)
    (auto simp: parent_run_command_def run_export_def run_cd_def run_kill_def setenv_def
      getcwd_buf_def split: option.splits sum.splits prod.splits if_splits)

lemma sys_pipe_jobs:
  "sys_pipe m = (x, m1) \<Longrightarrow> p_jobs (m_me m1) = p_jobs (m_me m) \<and> m_next_pid m1 = m_next_pid m"
  by (auto simp: sys_pipe_def Let_def split: option.splits)

lemma sys_fork_create_process_jobs:
  "0 < m_next_pid m \<Longrightarrow> sys_fork (create_process_fork os holder fds) m = (fl, m') \<Longrightarrow>
     p_jobs (m_me m') = p_jobs (m_me m)"
  by (auto simp: sys_fork_def create_process_fork_def fork_parent_def on_me_def
      split: option.splits prod.splits if_splits)

lemma create_process_keeps_registry:
  assumes "0 < m_next_pid m" and "create_process os holder m = (fl, m')"
  shows "p_jobs (m_me m') = p_jobs (m_me m)"
proof (cases "PIPE_OUT \<in> h_flags holder")
  case False
  with assms show ?thesis
    by (simp add: create_process_def sys_fork_create_process_jobs)
next
  case True
  obtain x mp where sp: "sys_pipe m = (x, mp)" by (cases "sys_pipe m")
  with True assms sys_pipe_jobs [OF sp]
    sys_fork_create_process_jobs [of mp os holder _ fl m'] show ?thesis
    by (cases x) (auto simp: create_process_def)
qed

text \<open>
  Claim C3 at the background pipeline \<open>sleep 10 &\<close>.  The claim asks that the shell's
  own process register the job.  The code registers it in \<open>run_generic\<close>, which runs in
  the process spawned for the stage (process 100): that process adds job 1 for process
  101 to its copy of the registry, writes the start notice and exits; the registry of the
  shell (process 1) stays empty.  The shell does return without waiting.
\<close>

theorem background_job_registered_in_child:
  "(case run_script False os0 (Some [h_sleep_bg, h_eoc]) machine0 of
      Some (Returns, m) \<Rightarrow>
        p_jobs (m_me m) = [] \<and> p_trace (m_me m) = [Forked 100]
        \<and> map (\<lambda>pr. (pr_parent pr, p_pid (pr_state pr), pr_flow pr,
                      map (\<lambda>j. (job_id j, job_pid j, job_cmd j)) (p_jobs (pr_state pr)),
                      p_trace (pr_state pr)))
            (m_spawned m)
          = [(1, 100, Ends (Exited EXIT_FAILURE), [(1, 101, ''sleep'')],
              [Forked 101,
               Write Tty (''Background job started: [1]'' @ [TAB] @ ''     101'' @ [TAB] @ ''sleep'' @ [NL])]),
             (100, 101, Ends (Replaced ''sleep'' [''sleep'', ''10'']), [], [])]
    | _ \<Rightarrow> False)"
  by code_simp

subsection \<open>Spawn failure\<close>

text \<open>
  Claim C7 at the pipeline \<open>cd /a | wc\<close> when the first \<^verbatim>\<open>fork\<close> fails.  The claim
  asks for a report on the error stream and for no parent-side command.  In
  \<open>create_process\<close> a failed \<^verbatim>\<open>fork\<close> takes the branch of the parent: the shell
  writes nothing and still changes its directory to \<open>/a\<close>; the second stage is spawned
  as usual.  \<open>run_generic\<close> does test for the failure and reports it.
\<close>

theorem spawn_failure_not_reported:
  "(case run_script False os0 (Some [h_cd, h_wc, h_eoc]) machine_nofork of
      Some (Returns, m) \<Rightarrow>
        p_trace (m_me m) = [Forked 100, WaitAny, WaitAny]
        \<and> p_cwd (m_me m) = ''/a'' \<and> map_of (p_env (m_me m)) ''PWD'' = Some ''/a''
        \<and> map (\<lambda>pr. (pr_parent pr, p_pid (pr_state pr), pr_flow pr)) (m_spawned m)
          = [(1, 100, Ends (Exited EXIT_FAILURE)), (100, 101, Ends (Replaced ''wc'' [''wc'']))]
    | _ \<Rightarrow> False)
   \<and> (case run_generic os0 \<lparr>g_args = Some [''wc''], g_flags = {}\<rparr> machine_nofork of
        (fl, m) \<Rightarrow> fl = Returns \<and> m_spawned m = []
          \<and> p_trace (m_me m) = [Write Tty (''ERROR: Fork failed: error'' @ [NL])])"
  by code_simp

subsection \<open>Redirection and pipe on the same stage\<close>

lemma child_setup_truncates:
  assumes "REDIRECT_OUT \<in> h_flags h" and "redirect_out h = Some f" and "os_open os f True = None"
  shows "Trunc f \<in> set (p_trace (child_setup os h fds p))"
  using assms
  by (simp add: child_setup_def Let_def redirect_stdout_def sys_open_def pipe_stdout_def)

text \<open>
  Claim C4, as the specification states it, fails: for a Print stage with both
  RedirectStdoutToFile (to \<open>out.txt\<close>) and PipeToNext, descriptor 1 of the spawned process
  is the write end of the pipe, the bytes \<open>a b \<close> and the line terminator go to the
  pipe, and nothing is written to the file.
\<close>

theorem redirect_and_pipe_counterexample:
  "(case create_process os0 h_echo_both machine0 of
      (fl, m) \<Rightarrow>
        map (\<lambda>pr. (fd_lookup (p_fds (pr_state pr)) 1,
                    written_to (PipeW 0) (p_trace (pr_state pr)),
                    written_to (FileW ''out.txt'') (p_trace (pr_state pr))))
          (m_spawned m)
        = [(Some (PipeW 0), ''a b '' @ [NL], [])])"
  by code_simp

text \<open>
  Claim C4, amended.  For every stage with both RedirectStdoutToFile and PipeToNext set,
  when the pipe and the process are created and descriptor 1 of the shell is open, the
  pipe takes precedence: the file, when it can be opened, is created or emptied, but
  descriptor 1 of the process spawned for the stage ends up as the write end of the pipe
  made for the stage.
\<close>

theorem pipe_overrides_redirect:
  assumes "REDIRECT_OUT \<in> h_flags holder" and "PIPE_OUT \<in> h_flags holder"
    and "next_failure (m_pipe_script m) = None" and "next_failure (m_fork_script m) = None"
    and "0 < m_next_pid m" and "fd_lookup (p_fds (m_me m)) 1 \<noteq> None"
    and "create_process os holder m = (fl, m')"
  shows "\<exists>st rest. m_spawned m' = m_spawned m @ st # rest
     \<and> pr_parent st = p_pid (m_me m) \<and> p_pid (pr_state st) = m_next_pid m
     \<and> fd_lookup (p_fds (pr_state st)) 1 = Some (PipeW (m_next_pipe m))
     \<and> (case redirect_out holder of
          None \<Rightarrow> True
        | Some f \<Rightarrow>
            (case os_open os f True of
               Some e \<Rightarrow> True
             | None \<Rightarrow> Trunc f \<in> set (p_trace (pr_state st))))"
proof -
  from sys_pipe_ok [OF assms(3) assms(6)]
  obtain r w m1 where sp: "sys_pipe m = (Some (r, w), m1)" "w \<noteq> 0" "w \<noteq> 1" "r \<noteq> 1"
    "fd_lookup (p_fds (m_me m1)) w = Some (PipeW (m_next_pipe m))"
    "m_fork_script m1 = m_fork_script m" "m_spawned m1 = m_spawned m"
    "m_next_pid m1 = m_next_pid m" "p_pid (m_me m1) = p_pid (m_me m)"
    by blast
  from assms(2) sp(1) have cp: "create_process os holder m =
      sys_fork (create_process_fork os holder (r, w)) m1"
    by (simp add: create_process_def)
  from assms(5) sp have pos: "0 < m_next_pid m1" by simp
  from assms(4) sp have nf: "next_failure (m_fork_script m1) = None" by simp
  let ?c = "child_setup os holder (r, w) (m_me (fork_child m1))"
  have wired: "fd_lookup (p_fds ?c) 1 = Some (PipeW (m_next_pipe m))"
    using assms(2) sp by (intro child_setup_pipe_wins) simp_all
  have opened: "case redirect_out holder of
          None \<Rightarrow> True
        | Some f \<Rightarrow>
            (case os_open os f True of
               Some e \<Rightarrow> True
             | None \<Rightarrow> Trunc f \<in> set (p_trace ?c))"
    using assms(1) by (simp add: child_setup_truncates split: option.splits)
  from sys_fork_create_process [OF pos nf, of os holder "(r, w)"]
  obtain m2 st rest where r: "sys_fork (create_process_fork os holder (r, w)) m1 = (Returns, m2)"
    "m_spawned m2 = m_spawned m1 @ st # rest"
    "pr_parent st = p_pid (m_me m1)" "p_pid (pr_state st) = m_next_pid m1"
    "p_fds (pr_state st) = p_fds ?c" "set (p_trace ?c) \<subseteq> set (p_trace (pr_state st))"
    by blast
  from opened r(6) have "case redirect_out holder of
          None \<Rightarrow> True
        | Some f \<Rightarrow>
            (case os_open os f True of
               Some e \<Rightarrow> True
             | None \<Rightarrow> Trunc f \<in> set (p_trace (pr_state st)))"
    by (auto split: option.splits)
  with r cp assms(7) sp wired show ?thesis
    by auto
qed

theorem pipe_overrides_redirect_witness:
  "REDIRECT_OUT \<in> h_flags h_echo_both \<and> PIPE_OUT \<in> h_flags h_echo_both
   \<and> fd_lookup (p_fds (m_me machine0)) 1 = Some Tty
   \<and> (\<exists>st rest. m_spawned (snd (create_process os0 h_echo_both machine0)) = st # rest
        \<and> pr_parent st = 1 \<and> p_pid (pr_state st) = 100
        \<and> fd_lookup (p_fds (pr_state st)) 1 = Some (PipeW 0)
        \<and> Trunc ''out.txt'' \<in> set (p_trace (pr_state st)))"
proof -
  have h: "REDIRECT_OUT \<in> h_flags h_echo_both" "PIPE_OUT \<in> h_flags h_echo_both"
    "next_failure (m_pipe_script machine0) = None" "next_failure (m_fork_script machine0) = None"
    "0 < m_next_pid machine0" "fd_lookup (p_fds (m_me machine0)) 1 \<noteq> None"
    by (simp_all add: h_echo_both_def machine0_def shell0_def fd_lookup_def)
  have e: "create_process os0 h_echo_both machine0 =
      (fst (create_process os0 h_echo_both machine0), snd (create_process os0 h_echo_both machine0))"
    by simp
  have o: "redirect_out h_echo_both = Some ''out.txt''" "os_open os0 ''out.txt'' True = None"
    by (simp_all add: h_echo_both_def os0_def)
  from pipe_overrides_redirect [OF h e] h o show ?thesis
    by (auto simp: machine0_def shell0_def fd_lookup_def)
qed

subsection \<open>ChangeDirectory\<close>

text \<open>
  Claim C5, as the specification states it, fails in its last part: when the directory
  changed to has a path of 1024 characters, the change succeeds and \<open>PWD\<close> keeps the old
  value, because \<^verbatim>\<open>getcwd\<close> is given a buffer of 1024 bytes and \<open>PWD\<close> is set only when
  it succeeds.
\<close>

theorem cd_long_path_counterexample:
  "p_cwd (run_cd os_deep (Some ''deep'') shell0) = long_path
   \<and> p_cwd (run_cd os_deep (Some ''deep'') shell0) \<noteq> p_cwd shell0
   \<and> map_of (p_env (run_cd os_deep (Some ''deep'') shell0)) ''PWD'' = Some ''/a/b''"
  by code_simp

text \<open>
  Claim C5, amended.  ChangeDirectory with a null path, a path that does not resolve or a
  directory that cannot be entered leaves the working directory and the environment
  unchanged and writes one message starting with \<open>ERROR: Failed to \<close> to the error
  stream (when descriptor 2 is open).  On a successful change the working directory is
  the resolved path, nothing is written, and \<open>PWD\<close> is set to the new working directory
  when its path is shorter than 1024 characters; for a longer path the environment is
  left as it was.
\<close>

theorem run_cd_outcomes:
  "(case cd_target os dir p of
      None \<Rightarrow>
        p_cwd (run_cd os dir p) = p_cwd p \<and> p_env (run_cd os dir p) = p_env p
        \<and> (case fd_lookup (p_fds p) 2 of
             None \<Rightarrow> p_trace (run_cd os dir p) = p_trace p
           | Some ob \<Rightarrow>
               (\<exists>msg. p_trace (run_cd os dir p) = p_trace p @ [Write ob (''ERROR: Failed to '' @ msg)]))
    | Some real_path \<Rightarrow>
        p_cwd (run_cd os dir p) = real_path \<and> p_trace (run_cd os dir p) = p_trace p
        \<and> (if length real_path < 1024
            then map_of (p_env (run_cd os dir p)) ''PWD'' = Some real_path
            else p_env (run_cd os dir p) = p_env p))"
  by (auto simp: cd_target_def run_cd_def perror_trace getcwd_buf_def setenv_def
      update_Some_unfold
      split: option.splits sum.splits)

theorem run_cd_outcomes_witness:
  "cd_target os0 (Some ''..'') shell0 = Some ''/a''
   \<and> p_cwd (run_cd os0 (Some ''..'') shell0) = ''/a''
   \<and> map_of (p_env (run_cd os0 (Some ''..'') shell0)) ''PWD'' = Some ''/a''
   \<and> cd_target os0 (Some ''nowhere'') shell0 = None
   \<and> p_cwd (run_cd os0 (Some ''nowhere'') shell0) = ''/a/b''
   \<and> p_env (run_cd os0 (Some ''nowhere'') shell0) = [(''PWD'', ''/a/b'')]"
proof -
  have t: "cd_target os0 (Some ''..'') shell0 = Some ''/a''"
    "cd_target os0 (Some ''nowhere'') shell0 = None"
    by (simp_all add: cd_target_def os0_def shell0_def)
  from run_cd_outcomes [of os0 "Some ''..''" shell0]
       run_cd_outcomes [of os0 "Some ''nowhere''" shell0] t
  show ?thesis
    by (simp add: shell0_def)
qed

subsection \<open>RunExternal\<close>

text \<open>
  Claim C6, as the specification states it, fails: the process spawned for the stage
  \<open>wc\<close> (process 100) is not replaced by the program.  It forks once more, waits for
  the new process 101, whose image is replaced by \<open>wc\<close>, and then exits itself.
\<close>

theorem run_generic_counterexample:
  "(case create_process os0 h_wc machine0 of
      (fl, m) \<Rightarrow>
        map (\<lambda>pr. (pr_parent pr, p_pid (pr_state pr), pr_flow pr, p_trace (pr_state pr)))
          (m_spawned m)
        = [(1, 100, Ends (Exited EXIT_FAILURE), [Forked 101, WaitPid 101]),
           (100, 101, Ends (Replaced ''wc'' [''wc'']), [])])"
  by code_simp

text \<open>
  Claim C6, amended.  RunExternal with a non-empty argument vector, when its
  \<^verbatim>\<open>fork\<close> succeeds, creates exactly one more process, a child of the calling process
  with the caller's descriptor table.  The image of that child is replaced by the named
  program with the whole argument vector; if the program cannot be executed, the child
  writes \<open>ERROR: Failed to execute command\<close> with the reason to the error stream and
  ends with the non-zero status \<open>EXIT_FAILURE\<close>, without returning.  The calling process
  keeps its image and its descriptors, and \<open>run_generic\<close> returns to its caller there.
\<close>

theorem run_generic_forks_then_execs:
  assumes "g_args cmd = Some (arg0 # rest)" and "next_failure (m_fork_script m) = None"
    and "0 < m_next_pid m"
  shows "\<exists>m' child. run_generic os cmd m = (Returns, m')
     \<and> m_spawned m' = m_spawned m @ [child]
     \<and> pr_parent child = p_pid (m_me m)
     \<and> p_pid (pr_state child) = m_next_pid m
     \<and> p_fds (pr_state child) = p_fds (m_me m)
     \<and> pr_flow child =
         (case os_execvp os arg0 of
            None \<Rightarrow> Ends (Replaced arg0 (arg0 # rest))
          | Some e \<Rightarrow> Ends (Exited EXIT_FAILURE))
     \<and> EXIT_FAILURE \<noteq> 0
     \<and> p_trace (pr_state child) =
         (case os_execvp os arg0 of
            None \<Rightarrow> []
          | Some e \<Rightarrow>
              (case fd_lookup (p_fds (m_me m)) 2 of
                 None \<Rightarrow> []
               | Some ob \<Rightarrow>
                   [Write ob (''ERROR: Failed to execute command: '' @ os_strerror os e @ [NL])]))
     \<and> p_fds (m_me m') = p_fds (m_me m)
     \<and> p_pid (m_me m') = p_pid (m_me m)"
proof -
  have nz: "EXIT_FAILURE \<noteq> 0"
    by (simp add: EXIT_FAILURE_def)
  from run_generic_forked [OF assms, of os] nz show ?thesis
    by blast
qed

theorem run_generic_forks_then_execs_witness:
  "g_args g_wc = Some [''wc''] \<and> next_failure (m_fork_script machine0) = None
   \<and> 0 < m_next_pid machine0
   \<and> (\<exists>m' child. run_generic os_noexec g_wc machine0 = (Returns, m')
        \<and> m_spawned m' = [child]
        \<and> pr_parent child = 1 \<and> p_pid (pr_state child) = 100
        \<and> p_fds (pr_state child) = [Some Tty, Some Tty, Some Tty]
        \<and> pr_flow child = Ends (Exited EXIT_FAILURE)
        \<and> p_trace (pr_state child) =
            [Write Tty (''ERROR: Failed to execute command: error'' @ [NL])]
        \<and> p_pid (m_me m') = 1)"
proof -
  have h: "g_args g_wc = Some [''wc'']" "next_failure (m_fork_script machine0) = None"
    "0 < m_next_pid machine0"
    by (simp_all add: g_wc_def machine0_def)
  from run_generic_forks_then_execs [OF h, of os_noexec] h show ?thesis
    by (auto simp: machine0_def shell0_def os_noexec_def os0_def fd_lookup_def)
qed

subsection \<open>Exit status of a stage\<close>

text \<open>
  Claim C10.  \<open>create_process\<close> always returns in the shell.  When \<^verbatim>\<open>fork\<close> fails no
  process is added.  When it succeeds, the process spawned for the stage is a child of
  the shell and ends with \<^verbatim>\<open>_exit(EXIT_FAILURE)\<close>, a non-zero status, whatever its
  command is and whatever the command did; it never replaces its image.  Every other
  process that appears is a child of the stage's process (the one \<open>run_generic\<close> forks)
  and either has its image replaced or ends with \<open>EXIT_FAILURE\<close> as well.
\<close>

theorem stage_process_exits_with_failure:
  assumes "0 < m_next_pid m" and "create_process os holder m = (fl, m')"
  shows "fl = Returns
     \<and> (case next_failure (m_fork_script m) of
          Some e \<Rightarrow> m_spawned m' = m_spawned m
        | None \<Rightarrow>
            (\<exists>st rest. m_spawned m' = m_spawned m @ st # rest
               \<and> pr_parent st = p_pid (m_me m) \<and> p_pid (pr_state st) = m_next_pid m
               \<and> pr_flow st = Ends (Exited EXIT_FAILURE) \<and> EXIT_FAILURE \<noteq> 0
               \<and> list_all (\<lambda>d. pr_parent d = m_next_pid m \<and> replaced_or_failed (pr_flow d)) rest))"
proof -
  obtain fds m1 where cp: "create_process os holder m = sys_fork (create_process_fork os holder fds) m1"
    and fr: "m_next_pid m1 = m_next_pid m" "m_fork_script m1 = m_fork_script m"
      "m_spawned m1 = m_spawned m" "p_pid (m_me m1) = p_pid (m_me m)"
  proof (cases "PIPE_OUT \<in> h_flags holder")
    case False
    then have "create_process os holder m = sys_fork (create_process_fork os holder (m_junk m)) m"
      by (simp add: create_process_def)
    then show ?thesis using that by blast
  next
    case True
    obtain x mp where sp: "sys_pipe m = (x, mp)" by (cases "sys_pipe m")
    with True have "create_process os holder m =
        sys_fork (create_process_fork os holder (case x of None \<Rightarrow> m_junk mp | Some fds \<Rightarrow> fds)) mp"
      by (simp add: create_process_def split: option.splits)
    with sys_pipe_frame [OF sp] show ?thesis using that by blast
  qed
  show ?thesis
  proof (cases "next_failure (m_fork_script m)")
    case None
    from assms(1) fr have pos: "0 < m_next_pid m1" by simp
    from None fr have nf: "next_failure (m_fork_script m1) = None" by simp
    from sys_fork_create_process [OF pos nf, of os holder fds] cp assms(2) fr None
    show ?thesis by (auto simp: EXIT_FAILURE_def)
  next
    case (Some e)
    with fr have "next_failure (m_fork_script m1) = Some e" by simp
    from sys_fork_failed [OF this, of os holder fds] cp assms(2) fr Some
    show ?thesis by auto
  qed
qed

theorem stage_process_exits_with_failure_witness:
  "0 < m_next_pid machine0
   \<and> fst (create_process os0 h_wc machine0) = Returns
   \<and> (\<exists>st rest. m_spawned (snd (create_process os0 h_wc machine0)) = st # rest
        \<and> pr_parent st = 1 \<and> p_pid (pr_state st) = 100
        \<and> pr_flow st = Ends (Exited EXIT_FAILURE)
        \<and> list_all (\<lambda>d. pr_parent d = 100 \<and> replaced_or_failed (pr_flow d)) rest)"
proof -
  have h: "0 < m_next_pid machine0"
    by (simp add: machine0_def)
  have e: "create_process os0 h_wc machine0 =
      (fst (create_process os0 h_wc machine0), snd (create_process os0 h_wc machine0))"
    by simp
  from stage_process_exits_with_failure [OF h e] h show ?thesis
    by (auto simp: machine0_def shell0_def)
qed

end
